theory Spec2Isabelle
  imports Main "HOL-Library.Word" "HOL-Library.Signed_Division"
begin

unbundle bit_operations_syntax

section \<open>Commitment binder (commit.ts)\<close>

text \<open>
  A JavaScript string is a sequence of UTF-16 code units; \<open>charCodeAt\<close> reads one of
  them as a number in 0..65535. \<open>ascii\<close> writes an ASCII literal as such a string.
\<close>

type_synonym js_string = "16 word list"

definition ascii :: "string \<Rightarrow> js_string" where
  "ascii s = map of_char s"

text \<open>
  \<open>assetIdToInt\<close>: the loop body is
  \<^verbatim>\<open>hash = ((hash << 5) - hash) + char; hash = hash & hash;\<close>
  The variable \<open>hash\<close> holds a signed 32-bit value after every iteration (\<open>&\<close> applies
  ToInt32). \<open>hash << 5\<close> is a 32-bit shift, the subtraction and the addition are exact
  on doubles (the operands are below \<open>2^37\<close> in magnitude), and \<open>hash & hash\<close> reduces the
  sum modulo \<open>2^32\<close>: one iteration is the wrapping 32-bit computation below. The loop
  runs over the code units from index 0 upwards. \<open>Math.abs\<close> is taken on the signed
  reading, and \<open>BigInt\<close> of that integer is exact.
\<close>

fun assetIdToInt_loop :: "32 word \<Rightarrow> js_string \<Rightarrow> 32 word" where
  "assetIdToInt_loop hash [] = hash"
| "assetIdToInt_loop hash (char # rest) =
     assetIdToInt_loop ((push_bit 5 hash - hash) + ucast char) rest"

definition assetIdToInt :: "js_string \<Rightarrow> int" where
  "assetIdToInt assetId = \<bar>sint (assetIdToInt_loop 0 assetId)\<bar>"

text \<open>
  A JavaScript \<open>number\<close> handed to \<open>BigInt(...)\<close>: the conversion is exact on
  integer-valued numbers and throws a RangeError on every other one (a fraction, NaN,
  an infinity).
\<close>

datatype js_number = Integral int | NonIntegral

datatype js_exn = RangeError | Error string

definition BigInt :: "js_number \<Rightarrow> js_exn + int" where
  "BigInt x = (case x of Integral n \<Rightarrow> Inr n | NonIntegral \<Rightarrow> Inl RangeError)"

text \<open>\<open>BigInt.prototype.toString(16)\<close> on a non-negative value: lower-case hexadecimal
  digits, no prefix, no leading zero.\<close>

definition hex_digit :: "nat \<Rightarrow> char" where
  "hex_digit d = ''0123456789abcdef'' ! d"

function toString16 :: "nat \<Rightarrow> string" where
  "toString16 n = (if n < 16 then [hex_digit n] else toString16 (n div 16) @ [hex_digit (n mod 16)])"
  by pat_completeness auto
termination
  by (relation "measure (\<lambda>n. n)") auto

declare toString16.simps [simp del]

text \<open>
  \<open>generateCommit\<close>. The only interaction with the outside is
  \<open>await buildPoseidon()\<close>, a call into the circomlibjs library: it is a parameter,
  an operation on the state \<open>'w\<close> of the outside world that returns the Poseidon
  instance; \<open>poseidon inputs\<close> is the canonical representative of the field element
  that \<open>poseidon.F.toString\<close> prints. The source then evaluates
  \<open>assetIdToInt(assetId)\<close>, \<open>BigInt(price)\<close> and \<open>BigInt(timestamp)\<close> in this
  order, hashes the three values and prints the hash in hexadecimal.
\<close>

definition generateCommit ::
  "('w \<Rightarrow> (int list \<Rightarrow> nat) \<times> 'w) \<Rightarrow> js_number \<Rightarrow> js_number \<Rightarrow> js_string \<Rightarrow> 'w
     \<Rightarrow> (js_exn + string) \<times> 'w" where
  "generateCommit buildPoseidon price timestamp assetId w =
     (let (poseidon, w1) = buildPoseidon w;
          assetIdInt = assetIdToInt assetId
      in case BigInt price of
           Inl e \<Rightarrow> (Inl e, w1)
         | Inr p \<Rightarrow>
             (case BigInt timestamp of
                Inl e \<Rightarrow> (Inl e, w1)
              | Inr t \<Rightarrow>
                  (let inputs = [p, t, assetIdInt];
                       commitment = poseidon inputs
                   in (Inr (toString16 commitment), w1))))"

text \<open>
  The binder as the specification words it: the arithmetic hash of the four values
  price, timestamp, asset identifier and proof digest. It is compared with
  \<open>generateCommit\<close> below.
\<close>

definition bind_spec :: "(int list \<Rightarrow> nat) \<Rightarrow> int \<Rightarrow> int \<Rightarrow> js_string \<Rightarrow> int \<Rightarrow> string" where
  "bind_spec poseidon price timestamp assetId proofDigestAsInt =
     toString16 (poseidon [price, timestamp, assetIdToInt assetId, proofDigestAsInt])"

section \<open>On-chain verifier (zk_verifier.rs, as documented)\<close>

type_synonym bytes = "8 word list"

datatype error =
    EmptyProof
  | NoPublicInput
  | BadProofLen
  | ZeroProof
  | PriceMismatch
  | TimestampMismatch
  | ProofAlreadyUsed
  | InvalidPublicInputs
  | ProofVerificationFailed

text \<open>The part of the ledger state that the verifier reads and writes: the persistent
  map \<open>used_proofs[proof_hash] = timestamp\<close>.\<close>

record env =
  used_proofs :: "256 word \<Rightarrow> 64 word option"

definition MIN_PROOF_LEN :: nat where
  "MIN_PROOF_LEN = 256"

text \<open>
  Modelled from the spec: \<open>validate_proof_structure\<close> is called by the verifier but its
  body is not part of the sources. The specification and the technical notes give its
  contract: the payload has at least the minimum length (256 bytes) and is not all
  zero bytes, otherwise the verifier rejects with EmptyProof, BadProofLen or ZeroProof.
\<close>

definition validate_proof_structure :: "bytes \<Rightarrow> error + unit" where
  "validate_proof_structure proof_data =
     (if proof_data = [] then Inl EmptyProof
      else if length proof_data < MIN_PROOF_LEN then Inl BadProofLen
      else if list_all (\<lambda>b. b = 0) proof_data then Inl ZeroProof
      else Inr ())"

text \<open>
  Modelled from the spec: \<open>is_proof_used\<close> and \<open>store_used_proof\<close> are not part of the
  sources either. The technical notes describe them as a lookup in and a store into
  the map of used proof hashes.
\<close>

definition is_proof_used :: "env \<Rightarrow> 256 word \<Rightarrow> bool" where
  "is_proof_used e proof_hash = (used_proofs e proof_hash \<noteq> None)"

definition store_used_proof :: "env \<Rightarrow> 256 word \<Rightarrow> 64 word \<Rightarrow> env" where
  "store_used_proof e proof_hash timestamp =
     e\<lparr>used_proofs := (used_proofs e)(proof_hash \<mapsto> timestamp)\<rparr>"

text \<open>
  \<open>verify_price_proof\<close>. \<open>keccak256\<close> is the host's hash function and a parameter.
  \<open>expected_price\<close> is an \<open>i128\<close>: the division truncates towards zero and
  \<open>as u32\<close> keeps the low 32 bits of the quotient. \<open>public_inputs.get(0)?\<close> leaves the
  function when there is no first element; the error reported then is NoPublicInput.
  The timestamp stored with the hash is the call's \<open>expected_timestamp\<close>. An error
  return leaves the state as it was.
\<close>

definition verify_price_proof ::
  "(bytes \<Rightarrow> 256 word) \<Rightarrow> env \<Rightarrow> bytes \<Rightarrow> 32 word list \<Rightarrow> 128 word \<Rightarrow> 64 word
     \<Rightarrow> (error + bool) \<times> env" where
  "verify_price_proof keccak256 e proof_data public_inputs expected_price expected_timestamp =
     (case validate_proof_structure proof_data of
        Inl err \<Rightarrow> (Inl err, e)
      | Inr _ \<Rightarrow>
          (case public_inputs of
             [] \<Rightarrow> (Inl NoPublicInput, e)
           | avg_price # _ \<Rightarrow>
               (let expected_scaled = (word_of_int (sint expected_price sdiv 100000) :: 32 word) in
                if avg_price \<noteq> expected_scaled then (Inl PriceMismatch, e)
                else
                  (let proof_hash = keccak256 proof_data in
                   if is_proof_used e proof_hash then (Inl ProofAlreadyUsed, e)
                   else (Inr True, store_used_proof e proof_hash expected_timestamp)))))"

text \<open>A submission to the verifier, and the ledger state after a sequence of them.\<close>

record submission =
  proof_data :: bytes
  public_inputs :: "32 word list"
  expected_price :: "128 word"
  expected_timestamp :: "64 word"

definition submit :: "(bytes \<Rightarrow> 256 word) \<Rightarrow> env \<Rightarrow> submission \<Rightarrow> (error + bool) \<times> env" where
  "submit keccak256 e s =
     verify_price_proof keccak256 e (proof_data s) (public_inputs s) (expected_price s)
       (expected_timestamp s)"

fun submit_all :: "(bytes \<Rightarrow> 256 word) \<Rightarrow> env \<Rightarrow> submission list \<Rightarrow> env" where
  "submit_all keccak256 e [] = e"
| "submit_all keccak256 e (s # ss) = submit_all keccak256 (snd (submit keccak256 e s)) ss"

section \<open>Publisher (publisher.ts)\<close>

text \<open>
  \<open>PublishParams\<close> and \<open>PublishResult\<close> as the interfaces declare them. The type of
  \<open>price\<close> and \<open>timestamp\<close> is \<open>number\<close> in publisher.ts and \<open>bigint\<close> in the
  polling variant of the class, hence the type parameter.
\<close>

record 'n PublishParams =
  assetId :: string
  price :: 'n
  timestamp :: 'n
  commit :: string

record PublishResult =
  txHash :: string
  success :: bool

text \<open>The \<open>Asset\<close> value that \<open>toAsset\<close> builds, \<open>{ tag: "Other", values: [assetId] }\<close>, and
  the contract invocation that the client assembles: the entry point with its
  arguments.\<close>

datatype Asset = Other string

datatype contract_call = set_asset_price Asset int int

definition toAsset :: "string \<Rightarrow> Asset" where
  "toAsset a = Other a"

text \<open>What the SDK hands back after \<open>signAndSend()\<close> or \<open>send()\<close>: the optional final
  response with its status and optional hash, and the optional send response with its
  optional hash.\<close>

record GetTransactionResponse =
  status :: string
  response_txHash :: "string option"

record SendTransactionResponse =
  hash :: "string option"

record SentTransaction =
  getTransactionResponse :: "GetTransactionResponse option"
  sendTransactionResponse :: "SendTransactionResponse option"

text \<open>The effects of a run of \<open>retry\<close> that a caller can observe: how many times \<open>fn\<close>
  was invoked and the delays passed to \<open>setTimeout\<close>, in milliseconds.\<close>

record run =
  attempts :: nat
  delays :: "nat list"

definition maxRetries :: int where
  "maxRetries = 3"

definition retryDelay :: nat where
  "retryDelay = 1000"

text \<open>
  \<open>retry\<close>. The callback \<open>fn\<close> is impure: \<open>fn k\<close> is the outcome of its invocation
  number \<open>k\<close> (counted from 0), \<open>Inl\<close> a thrown error. The \<open>catch\<close> block receives
  every error, whatever its kind.
\<close>

function retry :: "(nat \<Rightarrow> 'e + 'a) \<Rightarrow> int \<Rightarrow> run \<Rightarrow> ('e + 'a) \<times> run" where
  "retry fn retries r =
     (case fn (attempts r) of
        Inr v \<Rightarrow> (Inr v, r\<lparr>attempts := attempts r + 1\<rparr>)
      | Inl error \<Rightarrow>
          if retries \<le> 0 then (Inl error, r\<lparr>attempts := attempts r + 1\<rparr>)
          else retry fn (retries - 1)
                 (r\<lparr>attempts := attempts r + 1, delays := delays r @ [retryDelay]\<rparr>))"
  by pat_completeness auto
termination
  by (relation "measure (\<lambda>(fn, retries, r). nat retries)") auto

declare retry.simps [simp del]

text \<open>The arguments of \<open>client.set_asset_price\<close> in \<open>publishToOracle\<close>: the object literal
  is evaluated field by field, and each \<open>BigInt(...)\<close> may throw.\<close>

definition invocation :: "js_number PublishParams \<Rightarrow> js_exn + contract_call" where
  "invocation params =
     (case BigInt (price params) of
        Inl e \<Rightarrow> Inl e
      | Inr p \<Rightarrow>
          (case BigInt (timestamp params) of
             Inl e \<Rightarrow> Inl e
           | Inr t \<Rightarrow> Inr (set_asset_price (toAsset (assetId params)) p t)))"

text \<open>
  The callback first logs the parameters. The line that prints
  \<open>new Date(params.timestamp * 1000).toISOString()\<close> throws a RangeError when the time
  value is no valid date: beyond 8.64e15 ms in magnitude, NaN or an infinity. (A
  fractional timestamp passes this line and fails in \<open>BigInt\<close> right after it, with a
  RangeError as well, so on a timestamp that is no integer the callback throws a
  RangeError in every case.)
\<close>

definition log_params :: "js_number PublishParams \<Rightarrow> js_exn + unit" where
  "log_params params =
     (case timestamp params of
        Integral t \<Rightarrow> if \<bar>t * 1000\<bar> \<le> 8640000000000000 then Inr () else Inl RangeError
      | NonIntegral \<Rightarrow> Inl RangeError)"

text \<open>
  The callback that \<open>publishToOracle\<close> hands to \<open>retry\<close>. \<open>signAndSend call\<close> is what the
  network does with the assembled transaction in this invocation: simulation, signature
  and submission throw (\<open>Inl\<close>) or return the sent transaction. \<open>!txHash\<close> holds of a
  missing hash and of the empty string.
\<close>

definition attempt ::
  "(contract_call \<Rightarrow> js_exn + SentTransaction) \<Rightarrow> js_number PublishParams
     \<Rightarrow> js_exn + PublishResult" where
  "attempt signAndSend params =
     (case log_params params of
        Inl e \<Rightarrow> Inl e
      | Inr _ \<Rightarrow>
     (case invocation params of
        Inl e \<Rightarrow> Inl e
      | Inr call \<Rightarrow>
          (case signAndSend call of
             Inl e \<Rightarrow> Inl e
           | Inr sentTx \<Rightarrow>
               (case getTransactionResponse sentTx of
                  None \<Rightarrow>
                    Inl (Error ''Transaction was submitted but no final response was returned'')
                | Some finalResponse \<Rightarrow>
                    if status finalResponse \<noteq> ''SUCCESS''
                    then Inl (Error (''Transaction completed with status '' @ status finalResponse))
                    else
                      (let txHash =
                             (case response_txHash finalResponse of
                                Some h \<Rightarrow> Some h
                              | None \<Rightarrow>
                                  (case sendTransactionResponse sentTx of
                                     None \<Rightarrow> None
                                   | Some sr \<Rightarrow> hash sr))
                       in case txHash of
                            None \<Rightarrow>
                              Inl (Error ''Unable to determine transaction hash after submission'')
                          | Some h \<Rightarrow>
                              if h = []
                              then Inl (Error ''Unable to determine transaction hash after submission'')
                              else Inr \<lparr>txHash = h, success = True\<rparr>)))))"

text \<open>
  \<open>publishToOracle\<close> of publisher.ts. \<open>getClient\<close> is the outcome of
  \<open>await this.getClient()\<close>: the rejection of the client promise, or the client, whose
  behaviour in invocation \<open>k\<close> of the callback is \<open>client k\<close>.
\<close>

definition publishToOracle ::
  "(js_exn + (nat \<Rightarrow> contract_call \<Rightarrow> js_exn + SentTransaction)) \<Rightarrow> js_number PublishParams
     \<Rightarrow> (js_exn + PublishResult) \<times> run" where
  "publishToOracle getClient params =
     (case getClient of
        Inl e \<Rightarrow> (Inl e, \<lparr>attempts = 0, delays = []\<rparr>)
      | Inr client \<Rightarrow>
          retry (\<lambda>k. attempt (client k) params) maxRetries \<lparr>attempts = 0, delays = []\<rparr>)"

subsection \<open>The polling variant of the publisher\<close>

datatype GetTransactionStatus = SUCCESS | NOT_FOUND | FAILED

text \<open>The effects of the confirmation loop: the number of \<open>getTransaction\<close> calls made and
  the delays waited between them, in milliseconds.\<close>

record poll_run =
  polls :: nat
  sleeps :: "nat list"

text \<open>
  The loop \<open>while (result.status === NOT_FOUND) { wait 1500 ms; result = getTransaction }\<close>.
  \<open>getTransaction k\<close> is the outcome of call number \<open>k\<close> to the server, \<open>Inl\<close> a
  thrown error. The loop has no other exit, so it is a partial function: \<open>None\<close> is a
  run that never leaves the loop.
\<close>

partial_function (option) poll_loop ::
  "(nat \<Rightarrow> js_exn + GetTransactionStatus) \<Rightarrow> GetTransactionStatus \<Rightarrow> poll_run
     \<Rightarrow> ((js_exn + GetTransactionStatus) \<times> poll_run) option" where
  "poll_loop getTransaction result r =
     (if result = NOT_FOUND then
        (let r1 = r\<lparr>sleeps := sleeps r @ [1500]\<rparr> in
         case getTransaction (polls r1) of
           Inl e \<Rightarrow> Some (Inl e, r1\<lparr>polls := polls r1 + 1\<rparr>)
         | Inr result' \<Rightarrow> poll_loop getTransaction result' (r1\<lparr>polls := polls r1 + 1\<rparr>))
      else Some (Inr result, r))"

definition invocation_polling :: "int PublishParams \<Rightarrow> contract_call" where
  "invocation_polling params =
     set_asset_price (toAsset (assetId params)) (price params) (timestamp params)"

text \<open>
  \<open>publishToOracle\<close> of the polling variant. \<open>send call\<close> is the outcome of building,
  simulating, signing and sending the transaction; \<open>getTransaction h k\<close> is the outcome
  of call number \<open>k\<close> to \<open>server.getTransaction(h)\<close>.
\<close>

definition publishToOracle_polling ::
  "(contract_call \<Rightarrow> js_exn + SentTransaction) \<Rightarrow> (string \<Rightarrow> nat \<Rightarrow> js_exn + GetTransactionStatus)
     \<Rightarrow> int PublishParams \<Rightarrow> ((js_exn + PublishResult) \<times> poll_run) option" where
  "publishToOracle_polling send getTransaction params =
     (case send (invocation_polling params) of
        Inl e \<Rightarrow> Some (Inl e, \<lparr>polls = 0, sleeps = []\<rparr>)
      | Inr sendResult \<Rightarrow>
          (let txHash = (case sendTransactionResponse sendResult of
                           None \<Rightarrow> None
                         | Some sr \<Rightarrow> hash sr)
           in case txHash of
                None \<Rightarrow>
                  Some (Inl (Error ''Transaction send failed: no hash returned''),
                        \<lparr>polls = 0, sleeps = []\<rparr>)
              | Some h \<Rightarrow>
                  if h = []
                  then Some (Inl (Error ''Transaction send failed: no hash returned''),
                             \<lparr>polls = 0, sleeps = []\<rparr>)
                  else
                    (case getTransaction h 0 of
                       Inl e \<Rightarrow> Some (Inl e, \<lparr>polls = 1, sleeps = []\<rparr>)
                     | Inr result \<Rightarrow>
                         (case poll_loop (getTransaction h) result \<lparr>polls = 1, sleeps = []\<rparr> of
                            None \<Rightarrow> None
                          | Some (Inl e, r) \<Rightarrow> Some (Inl e, r)
                          | Some (Inr final, r) \<Rightarrow>
                              if final = FAILED
                              then Some (Inl (Error ''Soroban transaction failed''), r)
                              else Some (Inr \<lparr>txHash = h, success = True\<rparr>, r)))))"

section \<open>Consensus proof builder\<close>

record PriceObservation =
  obs_assetId :: string
  scaledPrice :: int
  observedAt :: nat
  sourceId :: string

datatype build_error =
    InsufficientSources
  | ToleranceExceeded
  | ProofGenerationFailed
  | LocalVerificationFailed

record ConsensusProof =
  cp_assetId :: string
  averagedPrice :: int
  proofBytes :: bytes
  publicInputs :: "int list"

text \<open>
  Modelled from the spec: the builder \<open>build\<close> (the prover module of the repository) is
  not part of the sources. The steps follow the specification of the
  ConsensusProofBuilder: fewer than two observations fail with InsufficientSources;
  \<open>maxPrice = max(all scaledPrice)\<close>, \<open>diff = max - min\<close>, and
  \<open>diff > maxPrice * toleranceBps / 10000\<close> fails with ToleranceExceeded; then the
  external oracle \<open>Prove\<close> is invoked, and its failure is ProofGenerationFailed; then
  \<open>VerifyFull\<close> is invoked, and its refusal is LocalVerificationFailed; the averaged
  price returned is the declared public output, the first public input (a proof
  without one counts as failed generation). The second component of the argument and
  of the result is the log of the inputs that \<open>Prove\<close> has been invoked with. The
  timestamp and the digest of the specification's record play no part here and are
  left out.
\<close>

definition build ::
  "(int list \<Rightarrow> string \<Rightarrow> (bytes \<times> int list) option) \<Rightarrow> (bytes \<Rightarrow> int list \<Rightarrow> bool)
     \<Rightarrow> PriceObservation list \<Rightarrow> int \<Rightarrow> (int list \<times> string) list
     \<Rightarrow> (build_error + ConsensusProof) \<times> (int list \<times> string) list" where
  "build Prove VerifyFull observations toleranceBps prove_log =
     (if length observations < 2 then (Inl InsufficientSources, prove_log)
      else
        (let prices = map scaledPrice observations;
             maxPrice = Max (set prices);
             minPrice = Min (set prices);
             diff = maxPrice - minPrice
         in if diff > maxPrice * toleranceBps div 10000 then (Inl ToleranceExceeded, prove_log)
            else
              (let asset = obs_assetId (hd observations);
                   prove_log1 = prove_log @ [(prices, asset)]
               in case Prove prices asset of
                    None \<Rightarrow> (Inl ProofGenerationFailed, prove_log1)
                  | Some (pbytes, pinputs) \<Rightarrow>
                      if \<not> VerifyFull pbytes pinputs then (Inl LocalVerificationFailed, prove_log1)
                      else
                        (case pinputs of
                           [] \<Rightarrow> (Inl ProofGenerationFailed, prove_log1)
                         | out # _ \<Rightarrow>
                             (Inr \<lparr>cp_assetId = asset, averagedPrice = out,
                                   proofBytes = pbytes, publicInputs = pinputs\<rparr>,
                              prove_log1)))))"

section \<open>Properties of the commitment binder\<close>

lemma assetIdToInt_bounds: "0 \<le> assetIdToInt s \<and> assetIdToInt s \<le> 2 ^ 31"
proof -
  let ?h = "assetIdToInt_loop 0 s"
  have "- (2 ^ 31) \<le> sint ?h" using sint_ge [of ?h] by simp
  moreover have "sint ?h < 2 ^ 31" using sint_lt [of ?h] by simp
  ultimately show ?thesis unfolding assetIdToInt_def by linarith
qed

text \<open>The upper bound \<open>2^31\<close> is reached: the folded hash of this string is \<open>-2^31\<close>.\<close>

lemma assetIdToInt_bound_reached: "assetIdToInt (ascii ''DADdgbx'') = 2 ^ 31"
  by (simp add: ascii_def assetIdToInt_def)

lemma hash_TSLA: "assetIdToInt_loop 0 (ascii ''TSLA'') = 2584628"
  by (simp add: ascii_def)

lemma hash_ARaAoes: "assetIdToInt_loop 0 (ascii ''ARaAoes'') = - 2584628"
  by (simp add: ascii_def)

lemma generateCommit_assetIdToInt:
  "assetIdToInt a = assetIdToInt b \<Longrightarrow>
   generateCommit buildPoseidon cp tm a w = generateCommit buildPoseidon cp tm b w"
  by (simp add: generateCommit_def)

text \<open>
  C10: \<open>assetIdToInt\<close> always returns a non-negative integer below \<open>2^32\<close>, and it is not
  injective. The strings "Aa" and "BB" already collide in the folded hash; "TSLA" and
  "ARaAoes" have the folded hashes 2584628 and -2584628 and collide through
  \<open>Math.abs\<close>. Hence \<open>generateCommit\<close> returns the same commitment for the two assets
  "TSLA" and "ARaAoes" at every price and timestamp, whatever the Poseidon instance.
\<close>

theorem assetIdToInt_range_not_injective:
  "(\<forall>s. 0 \<le> assetIdToInt s \<and> assetIdToInt s < 2 ^ 32)
   \<and> ascii ''Aa'' \<noteq> ascii ''BB''
   \<and> assetIdToInt (ascii ''Aa'') = assetIdToInt (ascii ''BB'')
   \<and> ascii ''TSLA'' \<noteq> ascii ''ARaAoes''
   \<and> sint (assetIdToInt_loop 0 (ascii ''TSLA'')) = 2584628
   \<and> sint (assetIdToInt_loop 0 (ascii ''ARaAoes'')) = - 2584628
   \<and> assetIdToInt (ascii ''TSLA'') = assetIdToInt (ascii ''ARaAoes'')
   \<and> (\<forall>buildPoseidon cp tm w.
        generateCommit buildPoseidon cp tm (ascii ''TSLA'') w =
        generateCommit buildPoseidon cp tm (ascii ''ARaAoes'') w)"
proof -
  have range: "\<forall>s. 0 \<le> assetIdToInt s \<and> assetIdToInt s < 2 ^ 32"
  proof
    fix s
    have "assetIdToInt s \<le> 2 ^ 31" using assetIdToInt_bounds by blast
    moreover have "(2::int) ^ 31 < 2 ^ 32" by simp
    ultimately show "0 \<le> assetIdToInt s \<and> assetIdToInt s < 2 ^ 32"
      using assetIdToInt_bounds [of s] by linarith
  qed
  have d1: "ascii ''Aa'' \<noteq> ascii ''BB''" by (simp add: ascii_def)
  have e1: "assetIdToInt (ascii ''Aa'') = assetIdToInt (ascii ''BB'')"
    by (simp add: ascii_def assetIdToInt_def)
  have d2: "ascii ''TSLA'' \<noteq> ascii ''ARaAoes''" by (simp add: ascii_def)
  have s1: "sint (assetIdToInt_loop 0 (ascii ''TSLA'')) = 2584628" by (simp add: hash_TSLA)
  have s2: "sint (assetIdToInt_loop 0 (ascii ''ARaAoes'')) = - 2584628"
    by (simp add: hash_ARaAoes)
  have e2: "assetIdToInt (ascii ''TSLA'') = assetIdToInt (ascii ''ARaAoes'')"
    by (simp add: assetIdToInt_def s1 s2)
  have g: "\<forall>buildPoseidon cp tm w.
        generateCommit buildPoseidon cp tm (ascii ''TSLA'') w =
        generateCommit buildPoseidon cp tm (ascii ''ARaAoes'') w"
    using generateCommit_assetIdToInt [OF e2] by blast
  from range d1 e1 d2 s1 s2 e2 g show ?thesis by blast
qed

text \<open>
  C3, as the code has it: on integer-valued price and timestamp, \<open>generateCommit\<close> returns
  the hexadecimal form of the Poseidon hash of the three values price, timestamp and
  \<open>assetIdToInt(assetId)\<close>. A proof digest is not an argument of the function and not
  among the hashed inputs.
\<close>

theorem generateCommit_hashes_three_inputs:
  "fst (generateCommit buildPoseidon (Integral cp) (Integral tm) aid w) =
     Inr (toString16 (fst (buildPoseidon w) [cp, tm, assetIdToInt aid]))"
  by (simp add: generateCommit_def BigInt_def split: prod.split)

text \<open>
  C3, as stated, fails: the value is not the hash of the four inputs that the
  specification lists. With the hash that counts its inputs, price 1, timestamp 2,
  asset "TSLA" and proof digest 5, the code returns "3" and the specified binder "4".
\<close>

theorem generateCommit_not_bind_spec:
  "fst (generateCommit (\<lambda>w. (\<lambda>xs. length xs, w)) (Integral 1) (Integral 2) (ascii ''TSLA'') ())
     \<noteq> Inr (bind_spec (\<lambda>xs. length xs) 1 2 (ascii ''TSLA'') 5)"
  by (simp add: generateCommit_def BigInt_def bind_spec_def toString16.simps hex_digit_def)

text \<open>
  C8: \<open>generateCommit\<close> is deterministic and pure. Provided the library hands out the same
  Poseidon function in both states of the outside world, two calls with identical
  arguments return identical results (a value or the same exception), whatever else
  differs between the two states; and the call leaves the world exactly as
  \<open>buildPoseidon\<close> left it.
\<close>

theorem generateCommit_deterministic:
  assumes "fst (buildPoseidon w) = fst (buildPoseidon w')"
  shows "fst (generateCommit buildPoseidon cp tm aid w) =
         fst (generateCommit buildPoseidon cp tm aid w')
       \<and> snd (generateCommit buildPoseidon cp tm aid w) = snd (buildPoseidon w)"
  using assms
  by (auto simp: generateCommit_def Let_def split: prod.splits sum.splits)

text \<open>Witness for C8: a world that counts the instances built, a toy hash, and two calls
  made in the states 0 and 7.\<close>

theorem generateCommit_deterministic_witness:
  "fst ((\<lambda>n::nat. (\<lambda>xs. nat \<bar>sum_list xs\<bar>, Suc n)) 0) = fst ((\<lambda>n::nat. (\<lambda>xs. nat \<bar>sum_list xs\<bar>, Suc n)) 7)
   \<and> fst (generateCommit (\<lambda>n::nat. (\<lambda>xs. nat \<bar>sum_list xs\<bar>, Suc n))
            (Integral 3005000000) (Integral 1700000000) (ascii ''TSLA'') 0)
     = fst (generateCommit (\<lambda>n::nat. (\<lambda>xs. nat \<bar>sum_list xs\<bar>, Suc n))
            (Integral 3005000000) (Integral 1700000000) (ascii ''TSLA'') 7)
   \<and> snd (generateCommit (\<lambda>n::nat. (\<lambda>xs. nat \<bar>sum_list xs\<bar>, Suc n))
            (Integral 3005000000) (Integral 1700000000) (ascii ''TSLA'') 0) = Suc 0"
  using generateCommit_deterministic
          [of "\<lambda>n::nat. (\<lambda>xs. nat \<bar>sum_list xs\<bar>, Suc n)" 0 7
              "Integral 3005000000" "Integral 1700000000" "ascii ''TSLA''"]
  by simp

section \<open>Properties of the on-chain verifier\<close>

lemma validate_proof_structure_ok: "validate_proof_structure (replicate 256 1) = Inr ()"
  by (simp add: validate_proof_structure_def MIN_PROOF_LEN_def list_all_iff)

lemma verify_keeps_record:
  "used_proofs e h = Some t \<Longrightarrow>
   used_proofs (snd (verify_price_proof K e pd pis cp ts)) h = Some t"
  by (auto simp: verify_price_proof_def Let_def is_proof_used_def store_used_proof_def
           split: sum.splits list.splits)

lemma submit_all_keeps_record:
  "used_proofs e h = Some t \<Longrightarrow> used_proofs (submit_all K e ss) h = Some t"
proof (induction ss arbitrary: e)
  case Nil
  then show ?case by simp
next
  case (Cons s ss)
  have "used_proofs (snd (submit K e s)) h = Some t"
    unfolding submit_def using Cons.prems by (rule verify_keeps_record)
  then show ?case using Cons.IH by simp
qed

lemma verify_accept:
  assumes "verify_price_proof K e pd pis cp ts = (Inr ok, e1)"
  shows "validate_proof_structure pd = Inr ()"
    and "pis \<noteq> []"
    and "hd pis = word_of_int (sint cp sdiv 100000)"
    and "used_proofs e (K pd) = None"
    and "e1 = store_used_proof e (K pd) ts"
    and "ok"
  using assms
  by (auto simp: verify_price_proof_def Let_def is_proof_used_def
           split: sum.splits list.splits if_splits)

lemma verify_used:
  assumes "validate_proof_structure pd = Inr ()" and "used_proofs e (K pd) = Some t"
  shows "verify_price_proof K e pd pis cp ts =
           (if pis = [] then (Inl NoPublicInput, e)
            else if hd pis \<noteq> word_of_int (sint cp sdiv 100000) then (Inl PriceMismatch, e)
            else (Inl ProofAlreadyUsed, e))"
  using assms
  by (auto simp: verify_price_proof_def Let_def is_proof_used_def split: list.splits)

text \<open>
  C1, as the code has it. Let a call with proof bytes \<open>pd\<close> be accepted in state \<open>e\<close>,
  and let \<open>e2\<close> be the state after any number of further submissions. Then no record
  existed for the digest before, the accepted call stored one record with its
  timestamp, and that record is still the one in \<open>e2\<close>. Every later call with the same
  proof bytes is rejected and leaves the state unchanged: with NoPublicInput when it
  has no public input, with PriceMismatch when its first public input disagrees with
  its claimed price, and with ProofAlreadyUsed otherwise; in particular a later call
  with the same proof bytes, public inputs and price returns ProofAlreadyUsed.
\<close>

theorem replay_guard:
  assumes first: "verify_price_proof K e pd pis cp ts = (Inr ok, e1)"
      and later: "e2 = submit_all K e1 ss"
  shows "used_proofs e (K pd) = None
       \<and> used_proofs e1 (K pd) = Some ts
       \<and> used_proofs e2 (K pd) = Some ts
       \<and> verify_price_proof K e2 pd pis' cp' ts' =
           (if pis' = [] then (Inl NoPublicInput, e2)
            else if hd pis' \<noteq> word_of_int (sint cp' sdiv 100000) then (Inl PriceMismatch, e2)
            else (Inl ProofAlreadyUsed, e2))
       \<and> verify_price_proof K e2 pd pis cp ts' = (Inl ProofAlreadyUsed, e2)"
proof -
  note acc = verify_accept [OF first]
  have r0: "used_proofs e (K pd) = None" by (rule acc(4))
  have r1: "used_proofs e1 (K pd) = Some ts" by (simp add: acc(5) store_used_proof_def)
  have r2: "used_proofs e2 (K pd) = Some ts"
    unfolding later using r1 by (rule submit_all_keeps_record)
  note used = verify_used [where K = K and pd = pd and e = e2, OF acc(1) r2]
  have r3: "verify_price_proof K e2 pd pis' cp' ts' =
           (if pis' = [] then (Inl NoPublicInput, e2)
            else if hd pis' \<noteq> word_of_int (sint cp' sdiv 100000) then (Inl PriceMismatch, e2)
            else (Inl ProofAlreadyUsed, e2))"
    by (rule used)
  have r4: "verify_price_proof K e2 pd pis cp ts' = (Inl ProofAlreadyUsed, e2)"
    using used [of pis cp ts'] acc(2) acc(3) by simp
  from r0 r1 r2 r3 r4 show ?thesis by blast
qed

text \<open>Witness for C1: a proof of 256 bytes 1, the public input 30050 and the price
  3005000000 are accepted on the empty ledger; the same payload is then rejected with
  ProofAlreadyUsed.\<close>

theorem replay_guard_witness:
  "verify_price_proof (\<lambda>b. of_nat (length b)) \<lparr>used_proofs = \<lambda>h. None\<rparr>
      (replicate 256 1) [30050] 3005000000 1700000000
    = (Inr True, \<lparr>used_proofs = (\<lambda>h. None)(256 \<mapsto> 1700000000)\<rparr>)
   \<and> verify_price_proof (\<lambda>b. of_nat (length b)) \<lparr>used_proofs = (\<lambda>h. None)(256 \<mapsto> 1700000000)\<rparr>
      (replicate 256 1) [30050] 3005000000 1700000000
    = (Inl ProofAlreadyUsed, \<lparr>used_proofs = (\<lambda>h. None)(256 \<mapsto> 1700000000)\<rparr>)"
proof -
  have f: "verify_price_proof (\<lambda>b. of_nat (length b)) \<lparr>used_proofs = \<lambda>h. None\<rparr>
      (replicate 256 1) [30050] 3005000000 1700000000
    = (Inr True, \<lparr>used_proofs = (\<lambda>h. None)(256 \<mapsto> 1700000000)\<rparr>)"
    by (simp add: verify_price_proof_def validate_proof_structure_ok is_proof_used_def
          store_used_proof_def signed_divide_int_def)
  have l: "\<lparr>used_proofs = (\<lambda>h. None)(256 \<mapsto> 1700000000)\<rparr>
             = submit_all (\<lambda>b. of_nat (length b))
                 \<lparr>used_proofs = (\<lambda>h. None)(256 \<mapsto> 1700000000)\<rparr> []"
    by simp
  show ?thesis using f replay_guard [OF f l, of "[30050]" 3005000000 1700000000] by simp
qed

text \<open>
  C1, as stated, fails: after the accepted call, a call with the same proof bytes and
  the claimed price 3006000000 is rejected with PriceMismatch, not with
  ProofAlreadyUsed, since the price check comes before the replay check.
\<close>

theorem replay_later_call_price_mismatch:
  "verify_price_proof (\<lambda>b. of_nat (length b)) \<lparr>used_proofs = \<lambda>h. None\<rparr>
      (replicate 256 1) [30050] 3005000000 1700000000
    = (Inr True, \<lparr>used_proofs = (\<lambda>h. None)(256 \<mapsto> 1700000000)\<rparr>)
   \<and> verify_price_proof (\<lambda>b. of_nat (length b)) \<lparr>used_proofs = (\<lambda>h. None)(256 \<mapsto> 1700000000)\<rparr>
      (replicate 256 1) [30050] 3006000000 1700000000
    = (Inl PriceMismatch, \<lparr>used_proofs = (\<lambda>h. None)(256 \<mapsto> 1700000000)\<rparr>)"
  by (simp add: verify_price_proof_def validate_proof_structure_ok is_proof_used_def
        store_used_proof_def signed_divide_int_def)




text \<open>
  Outside the range of a \<open>u32\<close> the cast \<open>as u32\<close> wraps: the claimed price
  429499734600000 rescales to \<open>2^32 + 30050\<close>, which the cast turns into 30050, and the
  call is accepted although the rescaled price is not the public input.
\<close>

lemma price_check_wraps_u32:
  "uint (hd [30050 :: 32 word]) \<noteq> sint (429499734600000 :: 128 word) sdiv 100000
   \<and> verify_price_proof (\<lambda>b. of_nat (length b)) \<lparr>used_proofs = \<lambda>h. None\<rparr>
       (replicate 256 1) [30050] 429499734600000 1700000000
     = (Inr True, \<lparr>used_proofs = (\<lambda>h. None)(256 \<mapsto> 1700000000)\<rparr>)"
  by (simp add: verify_price_proof_def validate_proof_structure_ok is_proof_used_def
        store_used_proof_def signed_divide_int_def)

section \<open>Properties of the retry wrapper\<close>

lemma retry_char:
  "retry fn retries r = (res, r') \<Longrightarrow>
   \<exists>n. n \<le> nat retries
     \<and> attempts r' = attempts r + n + 1
     \<and> delays r' = delays r @ replicate n retryDelay
     \<and> res = fn (attempts r + n)
     \<and> (\<forall>k<n. isl (fn (attempts r + k)))
     \<and> (isl res \<longrightarrow> n = nat retries)"
proof (induction fn retries r arbitrary: res r' rule: retry.induct)
  case (1 fn retries r)
  show ?case
  proof (cases "fn (attempts r)")
    case (Inr v)
    with "1.prems" have "res = Inr v" "r' = r\<lparr>attempts := attempts r + 1\<rparr>"
      by (simp_all add: retry.simps [of fn retries r])
    with Inr show ?thesis by (intro exI [of _ 0]) simp
  next
    case (Inl err)
    show ?thesis
    proof (cases "retries \<le> 0")
      case True
      with Inl "1.prems" have "res = Inl err" "r' = r\<lparr>attempts := attempts r + 1\<rparr>"
        by (simp_all add: retry.simps [of fn retries r])
      with Inl True show ?thesis by (intro exI [of _ 0]) simp
    next
      case False
      let ?r1 = "r\<lparr>attempts := attempts r + 1, delays := delays r @ [retryDelay]\<rparr>"
      from Inl False "1.prems" have rec: "retry fn (retries - 1) ?r1 = (res, r')"
        by (simp add: retry.simps [of fn retries r])
      from "1.IH" [OF Inl False rec] obtain n where n:
        "n \<le> nat (retries - 1)"
        "attempts r' = attempts ?r1 + n + 1"
        "delays r' = delays ?r1 @ replicate n retryDelay"
        "res = fn (attempts ?r1 + n)"
        "\<forall>k<n. isl (fn (attempts ?r1 + k))"
        "isl res \<longrightarrow> n = nat (retries - 1)"
        by blast
      have all: "\<forall>k<Suc n. isl (fn (attempts r + k))"
      proof (intro allI impI)
        fix k assume "k < Suc n"
        show "isl (fn (attempts r + k))"
        proof (cases k)
          case 0
          with Inl show ?thesis by simp
        next
          case (Suc j)
          with \<open>k < Suc n\<close> n(5) have "isl (fn (attempts ?r1 + j))" by simp
          with Suc show ?thesis by simp
        qed
      qed
      have "Suc n \<le> nat retries" using n(1) False by linarith
      moreover have "attempts r' = attempts r + Suc n + 1" using n(2) by simp
      moreover have "delays r' = delays r @ replicate (Suc n) retryDelay"
        using n(3) by (simp add: replicate_app_Cons_same)
      moreover have "res = fn (attempts r + Suc n)" using n(4) by simp
      moreover have "isl res \<longrightarrow> Suc n = nat retries" using n(6) False by auto
      ultimately show ?thesis using all by blast
    qed
  qed
qed

text \<open>
  C4, as the code has it. \<open>retry\<close> does not classify errors: it invokes \<open>fn\<close> again
  after every failure, whatever the error, until an invocation succeeds or \<open>retries\<close>
  re-invocations have been made. The number of invocations is between 1 and
  \<open>retries + 1\<close> (the count is bounded); every re-invocation is preceded by the same
  delay \<open>retryDelay\<close> (1000 ms); the result is the outcome of the last invocation, all
  earlier invocations have failed, and an error is surfaced only once the retries are
  used up.
\<close>

theorem retry_policy:
  assumes "retry fn retries \<lparr>attempts = 0, delays = []\<rparr> = (res, r')"
  shows "1 \<le> attempts r' \<and> attempts r' \<le> nat retries + 1
       \<and> delays r' = replicate (attempts r' - 1) retryDelay
       \<and> res = fn (attempts r' - 1)
       \<and> (\<forall>k<attempts r' - 1. isl (fn k))
       \<and> (isl res \<longrightarrow> attempts r' = nat retries + 1)"
proof -
  let ?r0 = "\<lparr>attempts = 0, delays = []\<rparr>"
  from retry_char [OF assms] obtain n where
        n1: "n \<le> nat retries"
    and n2: "attempts r' = attempts ?r0 + n + 1"
    and n3: "delays r' = delays ?r0 @ replicate n retryDelay"
    and n4: "res = fn (attempts ?r0 + n)"
    and n5: "\<forall>k<n. isl (fn (attempts ?r0 + k))"
    and n6: "isl res \<longrightarrow> n = nat retries"
    by blast
  have m: "attempts r' - 1 = n" using n2 by simp
  have "1 \<le> attempts r'" using n2 by simp
  moreover have "attempts r' \<le> nat retries + 1" using n1 n2 by simp
  moreover have "delays r' = replicate (attempts r' - 1) retryDelay"
    unfolding m using n3 by simp
  moreover have "res = fn (attempts r' - 1)" unfolding m using n4 by simp
  moreover have "\<forall>k<attempts r' - 1. isl (fn k)" unfolding m using n5 by simp
  moreover have "isl res \<longrightarrow> attempts r' = nat retries + 1"
  proof
    assume "isl res"
    with n6 have "n = nat retries" by blast
    with n2 show "attempts r' = nat retries + 1" by simp
  qed
  ultimately show ?thesis by blast
qed

text \<open>Witness for C4: a callback that fails twice, with two different errors, and then
  succeeds is invoked three times, with two delays of 1000 ms.\<close>

theorem retry_policy_witness:
  "retry (\<lambda>k. if k = 0 then Inl PriceMismatch else if k = 1 then Inl ProofAlreadyUsed else Inr k)
      maxRetries \<lparr>attempts = 0, delays = []\<rparr>
     = (Inr 2, \<lparr>attempts = 3, delays = [1000, 1000]\<rparr>)
   \<and> 3 \<le> nat maxRetries + 1
   \<and> [1000, 1000] = replicate (3 - 1) retryDelay"
proof -
  have run: "retry (\<lambda>k. if k = 0 then Inl PriceMismatch else if k = 1 then Inl ProofAlreadyUsed else Inr k)
      maxRetries \<lparr>attempts = 0, delays = []\<rparr>
     = (Inr 2, \<lparr>attempts = 3, delays = [1000, 1000]\<rparr>)"
    by (simp add: retry.simps maxRetries_def retryDelay_def)
  from retry_policy [OF run]
  have a: "attempts \<lparr>attempts = 3, delays = [1000, 1000]\<rparr> \<le> nat maxRetries + 1"
    and b: "delays \<lparr>attempts = 3, delays = [1000, 1000]\<rparr>
              = replicate (attempts \<lparr>attempts = 3, delays = [1000, 1000]\<rparr> - 1) retryDelay"
    by blast+
  have a': "3 \<le> nat maxRetries + 1" using a by simp
  have b': "[1000, 1000] = replicate (3 - 1) retryDelay" using b by simp
  from run a' b' show ?thesis by blast
qed

text \<open>
  C4, as stated, fails: permanent rejections are retried. A callback that always fails
  with ProofAlreadyUsed is invoked four times, with three delays, before the error is
  surfaced; and a ledger that completes every transaction with the status FAILED makes
  \<open>publishToOracle\<close> submit the transaction four times.
\<close>

theorem retry_repeats_permanent_rejection:
  "retry (\<lambda>k. Inl ProofAlreadyUsed :: error + unit) maxRetries \<lparr>attempts = 0, delays = []\<rparr>
     = (Inl ProofAlreadyUsed, \<lparr>attempts = 4, delays = [1000, 1000, 1000]\<rparr>)
   \<and> publishToOracle
       (Inr (\<lambda>k call. Inr \<lparr>getTransactionResponse =
                               Some \<lparr>status = ''FAILED'', response_txHash = Some ''ab''\<rparr>,
                             sendTransactionResponse = None\<rparr>))
       \<lparr>assetId = ''TSLA'', price = Integral 3005000000, timestamp = Integral 1700000000,
        commit = ''c0''\<rparr>
     = (Inl (Error ''Transaction completed with status FAILED''),
        \<lparr>attempts = 4, delays = [1000, 1000, 1000]\<rparr>)"
  by (simp add: publishToOracle_def attempt_def log_params_def invocation_def BigInt_def
        retry.simps maxRetries_def retryDelay_def)

section \<open>Properties of the confirmation loop\<close>

lemma poll_loop_terminal:
  "result \<noteq> NOT_FOUND \<Longrightarrow> poll_loop getTransaction result r = Some (Inr result, r)"
  by (simp add: poll_loop.simps [of getTransaction result r])

lemma poll_loop_returns:
  "(\<forall>k<n. getTransaction (polls r + k) = Inr NOT_FOUND) \<Longrightarrow>
   getTransaction (polls r + n) \<noteq> Inr NOT_FOUND \<Longrightarrow>
   poll_loop getTransaction NOT_FOUND r =
     Some (getTransaction (polls r + n),
           \<lparr>polls = polls r + n + 1, sleeps = sleeps r @ replicate (n + 1) 1500\<rparr>)"
proof (induction n arbitrary: r)
  case 0
  show ?case
  proof (cases "getTransaction (polls r)")
    case (Inl e)
    then show ?thesis
      by (simp add: poll_loop.simps [of getTransaction NOT_FOUND r] Let_def)
  next
    case (Inr result')
    with "0.prems"(2) have "result' \<noteq> NOT_FOUND" by simp
    with Inr show ?thesis
      by (simp add: poll_loop.simps [of getTransaction NOT_FOUND r] Let_def poll_loop_terminal)
  qed
next
  case (Suc n)
  let ?r1 = "r\<lparr>sleeps := sleeps r @ [1500], polls := polls r + 1\<rparr>"
  have first: "getTransaction (polls r) = Inr NOT_FOUND" using Suc.prems(1) by force
  have a: "\<forall>k<n. getTransaction (polls ?r1 + k) = Inr NOT_FOUND"
  proof (intro allI impI)
    fix k assume "k < n"
    then have "Suc k < Suc n" by simp
    with Suc.prems(1) have "getTransaction (polls r + Suc k) = Inr NOT_FOUND" by blast
    then show "getTransaction (polls ?r1 + k) = Inr NOT_FOUND" by simp
  qed
  have b: "getTransaction (polls ?r1 + n) \<noteq> Inr NOT_FOUND" using Suc.prems(2) by simp
  have "poll_loop getTransaction NOT_FOUND r = poll_loop getTransaction NOT_FOUND ?r1"
    using first by (simp add: poll_loop.simps [of getTransaction NOT_FOUND r] Let_def)
  also have "\<dots> = Some (getTransaction (polls ?r1 + n),
           \<lparr>polls = polls ?r1 + n + 1, sleeps = sleeps ?r1 @ replicate (n + 1) 1500\<rparr>)"
    by (rule Suc.IH [OF a b])
  finally show ?case by (simp add: replicate_app_Cons_same)
qed

lemma poll_loop_diverges:
  assumes "poll_loop getTransaction result r = Some y"
  shows "result \<noteq> NOT_FOUND \<or> (\<exists>n. getTransaction (polls r + n) \<noteq> Inr NOT_FOUND)"
proof (rule poll_loop.raw_induct
    [where P = "\<lambda>gt res r y. res \<noteq> NOT_FOUND \<or> (\<exists>n. gt (polls r + n) \<noteq> Inr NOT_FOUND)",
     OF _ assms])
  fix pl :: "(nat \<Rightarrow> js_exn + GetTransactionStatus) \<Rightarrow> GetTransactionStatus \<Rightarrow> poll_run
     \<Rightarrow> ((js_exn + GetTransactionStatus) \<times> poll_run) option"
    and gt res r y
  assume IH: "\<And>gt res r y. pl gt res r = Some y \<Longrightarrow>
                res \<noteq> NOT_FOUND \<or> (\<exists>n. gt (polls r + n) \<noteq> Inr NOT_FOUND)"
    and body: "(if res = NOT_FOUND
      then let r1 = r\<lparr>sleeps := sleeps r @ [1500]\<rparr>
           in case gt (polls r1) of
              Inl e \<Rightarrow> Some (Inl e, r1\<lparr>polls := polls r1 + 1\<rparr>)
              | Inr result' \<Rightarrow> pl gt result' (r1\<lparr>polls := polls r1 + 1\<rparr>)
      else Some (Inr res, r)) = Some y"
  show "res \<noteq> NOT_FOUND \<or> (\<exists>n. gt (polls r + n) \<noteq> Inr NOT_FOUND)"
  proof (cases "res = NOT_FOUND")
    case False
    then show ?thesis by simp
  next
    case True
    show ?thesis
    proof (cases "gt (polls r)")
      case (Inl e)
      then have "gt (polls r + 0) \<noteq> Inr NOT_FOUND" by simp
      then show ?thesis by blast
    next
      case (Inr result')
      let ?r1 = "r\<lparr>sleeps := sleeps r @ [1500], polls := polls r + 1\<rparr>"
      from body True Inr have "pl gt result' ?r1 = Some y"
        by (simp add: Let_def)
      from IH [OF this]
      consider "result' \<noteq> NOT_FOUND" | n where "gt (polls ?r1 + n) \<noteq> Inr NOT_FOUND"
        by blast
      then show ?thesis
      proof cases
        case 1
        with Inr have "gt (polls r + 0) \<noteq> Inr NOT_FOUND" by simp
        then show ?thesis by blast
      next
        case 2
        then have "gt (polls r + Suc n) \<noteq> Inr NOT_FOUND" by simp
        then show ?thesis by blast
      qed
    qed
  qed
qed

lemma poll_loop_result:
  assumes "poll_loop getTransaction result r = Some y"
  shows "fst y \<noteq> Inr NOT_FOUND"
proof (rule poll_loop.raw_induct
    [where P = "\<lambda>gt res r y. fst y \<noteq> Inr NOT_FOUND", OF _ assms])
  fix pl :: "(nat \<Rightarrow> js_exn + GetTransactionStatus) \<Rightarrow> GetTransactionStatus \<Rightarrow> poll_run
     \<Rightarrow> ((js_exn + GetTransactionStatus) \<times> poll_run) option"
    and gt res r y
  assume IH: "\<And>gt res r y. pl gt res r = Some y \<Longrightarrow> fst y \<noteq> Inr NOT_FOUND"
    and body: "(if res = NOT_FOUND
      then let r1 = r\<lparr>sleeps := sleeps r @ [1500]\<rparr>
           in case gt (polls r1) of
              Inl e \<Rightarrow> Some (Inl e, r1\<lparr>polls := polls r1 + 1\<rparr>)
              | Inr result' \<Rightarrow> pl gt result' (r1\<lparr>polls := polls r1 + 1\<rparr>)
      else Some (Inr res, r)) = Some y"
  show "fst y \<noteq> Inr NOT_FOUND"
  proof (cases "res = NOT_FOUND")
    case False
    with body show ?thesis by auto
  next
    case True
    show ?thesis
    proof (cases "gt (polls r)")
      case (Inl e)
      with body True show ?thesis by (auto simp: Let_def)
    next
      case (Inr result')
      with body True
      have "pl gt result' (r\<lparr>sleeps := sleeps r @ [1500], polls := polls r + 1\<rparr>) = Some y"
        by (simp add: Let_def)
      then show ?thesis by (rule IH)
    qed
  qed
qed

lemma poll_loop_None_iff:
  "(poll_loop getTransaction NOT_FOUND r = None) =
     (\<forall>n. getTransaction (polls r + n) = Inr NOT_FOUND)"
proof
  assume none: "poll_loop getTransaction NOT_FOUND r = None"
  show "\<forall>n. getTransaction (polls r + n) = Inr NOT_FOUND"
  proof (rule ccontr)
    assume "\<not> (\<forall>n. getTransaction (polls r + n) = Inr NOT_FOUND)"
    then have ex: "\<exists>n. getTransaction (polls r + n) \<noteq> Inr NOT_FOUND" by simp
    define m where "m = (LEAST n. getTransaction (polls r + n) \<noteq> Inr NOT_FOUND)"
    have m1: "getTransaction (polls r + m) \<noteq> Inr NOT_FOUND"
      unfolding m_def using ex by (rule LeastI_ex)
    have m2: "\<forall>k<m. getTransaction (polls r + k) = Inr NOT_FOUND"
      unfolding m_def using not_less_Least by blast
    from poll_loop_returns [OF m2 m1] none show False by simp
  qed
next
  assume all: "\<forall>n. getTransaction (polls r + n) = Inr NOT_FOUND"
  show "poll_loop getTransaction NOT_FOUND r = None"
  proof (cases "poll_loop getTransaction NOT_FOUND r")
    case None
    then show ?thesis .
  next
    case (Some y)
    from poll_loop_diverges [OF Some] all show ?thesis by simp
  qed
qed

text \<open>
  C5, as the code has it. The confirmation loop polls at the fixed interval of 1500 ms
  and has no maximum wait and no SubmissionTimeout: entered with the status NOT_FOUND,
  it never returns exactly when every further answer of the ledger is NOT_FOUND. When
  answer number \<open>n\<close> from the current one is the first that is not NOT_FOUND (a terminal
  status or a thrown error), the loop returns that answer after \<open>n + 1\<close> polls, each
  preceded by a wait of 1500 ms.
\<close>

theorem poll_loop_termination:
  "(poll_loop getTransaction NOT_FOUND r = None) =
     (\<forall>n. getTransaction (polls r + n) = Inr NOT_FOUND)
   \<and> ((\<forall>k<n. getTransaction (polls r + k) = Inr NOT_FOUND)
        \<and> getTransaction (polls r + n) \<noteq> Inr NOT_FOUND \<longrightarrow>
      poll_loop getTransaction NOT_FOUND r =
        Some (getTransaction (polls r + n),
              \<lparr>polls = polls r + n + 1, sleeps = sleeps r @ replicate (n + 1) 1500\<rparr>))"
  using poll_loop_None_iff [of getTransaction r] poll_loop_returns [of n getTransaction r]
  by blast

text \<open>Witness for C5: after the first poll, the ledger answers NOT_FOUND twice and then
  SUCCESS; the loop returns SUCCESS after three more polls and three waits.\<close>

theorem poll_loop_termination_witness:
  "(\<lambda>j. if j < 3 then Inr NOT_FOUND else Inr SUCCESS) (Suc 0)
      = (Inr NOT_FOUND :: js_exn + GetTransactionStatus)
   \<and> (\<lambda>j. if j < 3 then Inr NOT_FOUND else Inr SUCCESS) (Suc (Suc 0))
      = (Inr NOT_FOUND :: js_exn + GetTransactionStatus)
   \<and> poll_loop (\<lambda>j. if j < 3 then Inr NOT_FOUND else Inr SUCCESS) NOT_FOUND
        \<lparr>polls = 1, sleeps = []\<rparr>
     = Some (Inr SUCCESS, \<lparr>polls = 4, sleeps = [1500, 1500, 1500]\<rparr>)"
proof -
  let ?gt = "\<lambda>j::nat. if j < 3 then Inr NOT_FOUND
               else (Inr SUCCESS :: js_exn + GetTransactionStatus)"
  have a: "\<forall>k<2. ?gt (polls \<lparr>polls = 1, sleeps = []\<rparr> + k) = Inr NOT_FOUND" by simp
  have b: "?gt (polls \<lparr>polls = 1, sleeps = []\<rparr> + 2) \<noteq> Inr NOT_FOUND" by simp
  from a b poll_loop_termination [of ?gt "\<lparr>polls = 1, sleeps = []\<rparr>" 2]
  have "poll_loop ?gt NOT_FOUND \<lparr>polls = 1, sleeps = []\<rparr> =
        Some (?gt (polls \<lparr>polls = 1, sleeps = []\<rparr> + 2),
              \<lparr>polls = polls \<lparr>polls = 1, sleeps = []\<rparr> + 2 + 1,
               sleeps = sleeps \<lparr>polls = 1, sleeps = []\<rparr> @ replicate (2 + 1) 1500\<rparr>)"
    by blast
  then have c: "poll_loop ?gt NOT_FOUND \<lparr>polls = 1, sleeps = []\<rparr>
     = Some (Inr SUCCESS, \<lparr>polls = 4, sleeps = [1500, 1500, 1500]\<rparr>)"
    by (simp add: numeral_3_eq_3)
  have d: "?gt (Suc 0) = Inr NOT_FOUND" by simp
  have e: "?gt (Suc (Suc 0)) = Inr NOT_FOUND" by simp
  from d e c show ?thesis by blast
qed

text \<open>
  C5, as stated, fails: when the ledger answers NOT_FOUND to every poll, the loop never
  returns, and neither does \<open>publishToOracle\<close> of the polling variant: there is no
  result and no SubmissionTimeout.
\<close>

theorem poll_loop_unbounded:
  "poll_loop (\<lambda>k. Inr NOT_FOUND) NOT_FOUND \<lparr>polls = 1, sleeps = []\<rparr> = None
   \<and> publishToOracle_polling
       (\<lambda>call. Inr \<lparr>getTransactionResponse = None,
                     sendTransactionResponse = Some \<lparr>hash = Some ''ab''\<rparr>\<rparr>)
       (\<lambda>h k. Inr NOT_FOUND)
       \<lparr>assetId = ''TSLA'', price = 3005000000, timestamp = 1700000000, commit = ''c0''\<rparr>
     = None"
proof -
  have "poll_loop (\<lambda>k. Inr NOT_FOUND) NOT_FOUND \<lparr>polls = 1, sleeps = []\<rparr> = None"
    by (simp add: poll_loop_None_iff)
  then show ?thesis by (simp add: publishToOracle_polling_def)
qed

section \<open>Properties of the publisher\<close>

lemma attempt_Inr:
  assumes "attempt signAndSend params = Inr res"
  shows "success res \<and> txHash res \<noteq> []
       \<and> (\<exists>call sentTx finalResponse. invocation params = Inr call \<and> signAndSend call = Inr sentTx
            \<and> getTransactionResponse sentTx = Some finalResponse
            \<and> status finalResponse = ''SUCCESS'')"
  using assms
  by (auto simp: attempt_def Let_def split: sum.splits option.splits if_splits)

lemma publishToOracle_Inr:
  assumes "publishToOracle getClient params = (Inr res, r)"
  shows "success res \<and> txHash res \<noteq> []
       \<and> (\<exists>client call sentTx finalResponse. getClient = Inr client
            \<and> invocation params = Inr call
            \<and> client (attempts r - 1) call = Inr sentTx
            \<and> getTransactionResponse sentTx = Some finalResponse
            \<and> status finalResponse = ''SUCCESS'')"
proof (cases getClient)
  case (Inl e)
  with assms show ?thesis by (simp add: publishToOracle_def)
next
  case (Inr client)
  let ?fn = "\<lambda>k. attempt (client k) params"
  let ?r0 = "\<lparr>attempts = 0, delays = []\<rparr>"
  from assms Inr have "retry ?fn maxRetries ?r0 = (Inr res, r)"
    by (simp add: publishToOracle_def)
  from retry_char [OF this] obtain n where
        n1: "attempts r = attempts ?r0 + n + 1"
    and n2: "Inr res = ?fn (attempts ?r0 + n)"
    by blast
  from n1 have "attempts r - 1 = n" by simp
  with n2 have "attempt (client (attempts r - 1)) params = Inr res" by simp
  from attempt_Inr [OF this] Inr show ?thesis by blast
qed

lemma publishToOracle_polling_Inr:
  assumes "publishToOracle_polling send getTransaction params = Some (Inr res, r)"
  shows "success res \<and> txHash res \<noteq> []
       \<and> (\<exists>sendResult sr result. send (invocation_polling params) = Inr sendResult
            \<and> sendTransactionResponse sendResult = Some sr \<and> hash sr = Some (txHash res)
            \<and> getTransaction (txHash res) 0 = Inr result
            \<and> poll_loop (getTransaction (txHash res)) result \<lparr>polls = 1, sleeps = []\<rparr>
                = Some (Inr SUCCESS, r))"
proof -
  from assms obtain sendResult where s: "send (invocation_polling params) = Inr sendResult"
    by (auto simp: publishToOracle_polling_def split: sum.splits)
  from assms s obtain sr where sr: "sendTransactionResponse sendResult = Some sr"
    by (auto simp: publishToOracle_polling_def Let_def split: option.splits)
  from assms s sr obtain h where h: "hash sr = Some h" "h \<noteq> []"
    by (auto simp: publishToOracle_polling_def Let_def split: option.splits if_splits)
  from assms s sr h obtain result where g: "getTransaction h 0 = Inr result"
    by (auto simp: publishToOracle_polling_def Let_def split: sum.splits)
  from assms s sr h g obtain y where
    p: "poll_loop (getTransaction h) result \<lparr>polls = 1, sleeps = []\<rparr> = Some y"
    by (auto simp: publishToOracle_polling_def Let_def split: option.splits)
  from poll_loop_result [OF p] have nf: "fst y \<noteq> Inr NOT_FOUND" .
  from assms s sr h g p obtain final where
    y: "y = (Inr final, r)" "final \<noteq> FAILED" "res = \<lparr>txHash = h, success = True\<rparr>"
    by (cases y) (auto simp: publishToOracle_polling_def Let_def split: sum.splits if_splits)
  from nf y have "final = SUCCESS" by (cases final) auto
  with s sr h g p y show ?thesis by auto
qed

text \<open>
  C9: \<open>publishToOracle\<close> never returns a failed result. In both variants of the publisher
  a returned value has \<open>success = true\<close> and a non-empty \<open>txHash\<close>, and it is returned only
  after a ledger answer of success: in publisher.ts the last invocation of the callback
  got a final response with the status SUCCESS, in the polling variant the send
  response carried the hash and the confirmation loop ended with the status SUCCESS.
  Every other outcome (no final response, another status, no hash, a failed
  transaction, a thrown error) is an exception.
\<close>

theorem publishToOracle_returns_success:
  "(publishToOracle getClient params = (Inr res, r) \<longrightarrow>
      success res \<and> txHash res \<noteq> []
      \<and> (\<exists>client call sentTx finalResponse. getClient = Inr client
            \<and> invocation params = Inr call
            \<and> client (attempts r - 1) call = Inr sentTx
            \<and> getTransactionResponse sentTx = Some finalResponse
            \<and> status finalResponse = ''SUCCESS''))
   \<and> (publishToOracle_polling send getTransaction params1 = Some (Inr res1, r1) \<longrightarrow>
      success res1 \<and> txHash res1 \<noteq> []
      \<and> (\<exists>sendResult sr result. send (invocation_polling params1) = Inr sendResult
            \<and> sendTransactionResponse sendResult = Some sr \<and> hash sr = Some (txHash res1)
            \<and> getTransaction (txHash res1) 0 = Inr result
            \<and> poll_loop (getTransaction (txHash res1)) result \<lparr>polls = 1, sleeps = []\<rparr>
                = Some (Inr SUCCESS, r1)))"
  apply (rule conjI)
   apply (rule impI, erule publishToOracle_Inr)
  apply (rule impI, erule publishToOracle_polling_Inr)
  done

text \<open>Witness for C9: a ledger that confirms the transaction at once, and one that
  answers NOT_FOUND to the first two polls and SUCCESS to the third.\<close>

theorem publishToOracle_returns_success_witness:
  "publishToOracle
     (Inr (\<lambda>k call. Inr \<lparr>getTransactionResponse =
                             Some \<lparr>status = ''SUCCESS'', response_txHash = None\<rparr>,
                           sendTransactionResponse = Some \<lparr>hash = Some ''ab''\<rparr>\<rparr>))
     \<lparr>assetId = ''TSLA'', price = Integral 3005000000, timestamp = Integral 1700000000,
      commit = ''c0''\<rparr>
     = (Inr \<lparr>txHash = ''ab'', success = True\<rparr>, \<lparr>attempts = 1, delays = []\<rparr>)
   \<and> publishToOracle_polling
       (\<lambda>call. Inr \<lparr>getTransactionResponse = None,
                     sendTransactionResponse = Some \<lparr>hash = Some ''ab''\<rparr>\<rparr>)
       (\<lambda>h k. if k < 2 then Inr NOT_FOUND else Inr SUCCESS)
       \<lparr>assetId = ''TSLA'', price = 3005000000, timestamp = 1700000000, commit = ''c0''\<rparr>
     = Some (Inr \<lparr>txHash = ''ab'', success = True\<rparr>, \<lparr>polls = 3, sleeps = [1500, 1500]\<rparr>)
   \<and> success \<lparr>txHash = ''ab'', success = True\<rparr>
   \<and> txHash \<lparr>txHash = ''ab'', success = True\<rparr> \<noteq> []"
proof -
  let ?client = "Inr (\<lambda>k call. Inr \<lparr>getTransactionResponse =
                             Some \<lparr>status = ''SUCCESS'', response_txHash = None\<rparr>,
                           sendTransactionResponse = Some \<lparr>hash = Some ''ab''\<rparr>\<rparr>)
      :: js_exn + (nat \<Rightarrow> contract_call \<Rightarrow> js_exn + SentTransaction)"
  let ?params = "\<lparr>assetId = ''TSLA'', price = Integral 3005000000,
                  timestamp = Integral 1700000000, commit = ''c0''\<rparr>"
  let ?send = "\<lambda>call :: contract_call. Inr \<lparr>getTransactionResponse = None,
                     sendTransactionResponse = Some \<lparr>hash = Some ''ab''\<rparr>\<rparr> :: js_exn + SentTransaction"
  let ?gt = "\<lambda>(h :: string) (k :: nat). if k < 2 then Inr NOT_FOUND
               else (Inr SUCCESS :: js_exn + GetTransactionStatus)"
  let ?params1 = "\<lparr>assetId = ''TSLA'', price = 3005000000 :: int, timestamp = 1700000000,
                   commit = ''c0''\<rparr>"
  let ?res = "\<lparr>txHash = ''ab'', success = True\<rparr>"
  have a: "publishToOracle ?client ?params = (Inr ?res, \<lparr>attempts = 1, delays = []\<rparr>)"
    by (simp add: publishToOracle_def attempt_def log_params_def invocation_def BigInt_def
          retry.simps maxRetries_def retryDelay_def)
  have b: "publishToOracle_polling ?send ?gt ?params1
             = Some (Inr ?res, \<lparr>polls = 3, sleeps = [1500, 1500]\<rparr>)"
    by (simp add: publishToOracle_polling_def poll_loop.simps)
  from a b publishToOracle_returns_success
             [of ?client ?params ?res "\<lparr>attempts = 1, delays = []\<rparr>"
                 ?send ?gt ?params1 ?res "\<lparr>polls = 3, sleeps = [1500, 1500]\<rparr>"]
  have "success ?res \<and> txHash ?res \<noteq> []" by blast
  with a b show ?thesis by blast
qed

lemma invocation_commit: "invocation (params\<lparr>commit := c'\<rparr>) = invocation params"
  by (simp add: invocation_def cong: sum.case_cong)

lemma log_params_commit: "log_params (params\<lparr>commit := c'\<rparr>) = log_params params"
  by (simp add: log_params_def)

lemma attempt_commit:
  "attempt signAndSend (params\<lparr>commit := c'\<rparr>) = attempt signAndSend params"
  by (simp add: attempt_def log_params_commit invocation_commit cong: sum.case_cong)

lemma invocation_polling_commit:
  "invocation_polling (params\<lparr>commit := c'\<rparr>) = invocation_polling params"
  by (simp add: invocation_polling_def)

lemma attempt_client_only:
  assumes "signAndSend (set_asset_price (Other a) p t) = signAndSend' (set_asset_price (Other a) p t)"
  shows "attempt signAndSend \<lparr>assetId = a, price = Integral p, timestamp = Integral t, commit = c\<rparr>
       = attempt signAndSend' \<lparr>assetId = a, price = Integral p, timestamp = Integral t, commit = c\<rparr>"
  using assms
  by (simp add: attempt_def invocation_def BigInt_def toAsset_def cong: sum.case_cong)

lemma attempt_throws:
  assumes "\<bar>t * 1000\<bar> \<le> 8640000000000000"
      and "signAndSend (set_asset_price (Other a) p t) = Inl e"
  shows "attempt signAndSend \<lparr>assetId = a, price = Integral p, timestamp = Integral t, commit = c\<rparr>
       = Inl e"
  using assms
  by (simp add: attempt_def log_params_def invocation_def BigInt_def toAsset_def)

lemma attempt_succeeds:
  assumes "\<bar>t * 1000\<bar> \<le> 8640000000000000"
      and "signAndSend (set_asset_price (Other a) p t)
             = Inr \<lparr>getTransactionResponse = Some \<lparr>status = ''SUCCESS'', response_txHash = Some h\<rparr>,
                    sendTransactionResponse = sr\<rparr>"
      and "h \<noteq> []"
  shows "attempt signAndSend \<lparr>assetId = a, price = Integral p, timestamp = Integral t, commit = c\<rparr>
       = Inr \<lparr>txHash = h, success = True\<rparr>"
  using assms
  by (simp add: attempt_def log_params_def invocation_def BigInt_def toAsset_def)

lemma attempt_date_out_of_range:
  assumes "\<not> \<bar>t * 1000\<bar> \<le> 8640000000000000"
  shows "attempt signAndSend \<lparr>assetId = a, price = Integral p, timestamp = Integral t, commit = c\<rparr>
       = Inl RangeError"
  using assms
  by (simp add: attempt_def log_params_def)

lemma retry_always_fails:
  "retry (\<lambda>k. Inl e) maxRetries \<lparr>attempts = 0, delays = []\<rparr>
     = (Inl e, \<lparr>attempts = 4, delays = [1000, 1000, 1000]\<rparr>)"
  by (simp add: retry.simps maxRetries_def retryDelay_def)

lemma retry_first_succeeds:
  "fn 0 = Inr v \<Longrightarrow>
   retry fn maxRetries \<lparr>attempts = 0, delays = []\<rparr> = (Inr v, \<lparr>attempts = 1, delays = []\<rparr>)"
  by (simp add: retry.simps [of fn maxRetries "\<lparr>attempts = 0, delays = []\<rparr>"])

text \<open>
  C2, as the code has it. Let the price and the timestamp be integers \<open>p\<close> and \<open>t\<close>, and
  let \<open>call\<close> be the invocation of the entry point \<open>set_asset_price\<close> of the oracle
  contract with the three arguments \<open>asset_id = Other(assetId)\<close>, \<open>p\<close> and \<open>t\<close>. In both
  variants of the publisher \<open>call\<close> is what the arguments of \<open>client.set_asset_price\<close>
  evaluate to, and it is the one thing handed to the client: the outcome of
  \<open>publishToOracle\<close> depends on the client only through its answers to \<open>call\<close>, and it
  does depend on them, since an exception thrown on \<open>call\<close> is the exception of the
  publisher and a successful answer to \<open>call\<close> with the hash \<open>h\<close> is its result. In
  publisher.ts this holds when the timestamp is a valid date; otherwise the log line
  throws a RangeError in every invocation of the callback and nothing is handed to the
  client. The commitment is logged only and the outcome does not depend on it; proof
  bytes and public inputs are no fields of \<open>PublishParams\<close>.
\<close>

theorem publish_payload:
  assumes "params = \<lparr>assetId = a, price = Integral p, timestamp = Integral t, commit = c\<rparr>"
      and "params1 = \<lparr>assetId = a, price = p, timestamp = t, commit = c\<rparr>"
      and "call = set_asset_price (Other a) p t"
  shows "invocation params = Inr call
   \<and> invocation_polling params1 = call
   \<and> ((\<forall>k. client k call = client' k call) \<longrightarrow>
        publishToOracle (Inr client) params = publishToOracle (Inr client') params)
   \<and> (\<bar>t * 1000\<bar> \<le> 8640000000000000 \<and> (\<forall>k. client k call = Inl e) \<longrightarrow>
        publishToOracle (Inr client) params
          = (Inl e, \<lparr>attempts = 4, delays = [1000, 1000, 1000]\<rparr>))
   \<and> (\<bar>t * 1000\<bar> \<le> 8640000000000000
        \<and> client 0 call
            = Inr \<lparr>getTransactionResponse = Some \<lparr>status = ''SUCCESS'', response_txHash = Some h\<rparr>,
                   sendTransactionResponse = sr\<rparr>
        \<and> h \<noteq> [] \<longrightarrow>
        publishToOracle (Inr client) params
          = (Inr \<lparr>txHash = h, success = True\<rparr>, \<lparr>attempts = 1, delays = []\<rparr>))
   \<and> (\<not> \<bar>t * 1000\<bar> \<le> 8640000000000000 \<longrightarrow>
        publishToOracle (Inr client) params
          = (Inl RangeError, \<lparr>attempts = 4, delays = [1000, 1000, 1000]\<rparr>))
   \<and> (send call = send' call \<longrightarrow>
        publishToOracle_polling send getTransaction params1
          = publishToOracle_polling send' getTransaction params1)
   \<and> (send call = Inl e \<longrightarrow>
        publishToOracle_polling send getTransaction params1
          = Some (Inl e, \<lparr>polls = 0, sleeps = []\<rparr>))
   \<and> (send call = Inr \<lparr>getTransactionResponse = g,
                         sendTransactionResponse = Some \<lparr>hash = Some h\<rparr>\<rparr>
        \<and> h \<noteq> [] \<and> getTransaction h 0 = Inr SUCCESS \<longrightarrow>
        publishToOracle_polling send getTransaction params1
          = Some (Inr \<lparr>txHash = h, success = True\<rparr>, \<lparr>polls = 1, sleeps = []\<rparr>))
   \<and> publishToOracle getClient (params\<lparr>commit := c'\<rparr>) = publishToOracle getClient params
   \<and> publishToOracle_polling send getTransaction (params1\<lparr>commit := c'\<rparr>)
      = publishToOracle_polling send getTransaction params1"
proof -
  have c1: "invocation params = Inr call"
    unfolding assms by (simp add: invocation_def BigInt_def toAsset_def)
  have c2: "invocation_polling params1 = call"
    unfolding assms by (simp add: invocation_polling_def toAsset_def)
  have c3: "(\<forall>k. client k call = client' k call) \<longrightarrow>
        publishToOracle (Inr client) params = publishToOracle (Inr client') params"
  proof
    assume same: "\<forall>k. client k call = client' k call"
    have "(\<lambda>k. attempt (client k) params) = (\<lambda>k. attempt (client' k) params)"
    proof
      fix k
      from same have "client k (set_asset_price (Other a) p t)
                        = client' k (set_asset_price (Other a) p t)"
        unfolding assms by blast
      then show "attempt (client k) params = attempt (client' k) params"
        unfolding assms by (rule attempt_client_only)
    qed
    then show "publishToOracle (Inr client) params = publishToOracle (Inr client') params"
      by (simp add: publishToOracle_def)
  qed
  have c4: "\<bar>t * 1000\<bar> \<le> 8640000000000000 \<and> (\<forall>k. client k call = Inl e) \<longrightarrow>
        publishToOracle (Inr client) params
          = (Inl e, \<lparr>attempts = 4, delays = [1000, 1000, 1000]\<rparr>)"
  proof
    assume h: "\<bar>t * 1000\<bar> \<le> 8640000000000000 \<and> (\<forall>k. client k call = Inl e)"
    have "(\<lambda>k. attempt (client k) params) = (\<lambda>k. Inl e)"
    proof
      fix k
      from h have "client k (set_asset_price (Other a) p t) = Inl e" unfolding assms by blast
      with h show "attempt (client k) params = Inl e"
        unfolding assms by (simp add: attempt_throws)
    qed
    then show "publishToOracle (Inr client) params
          = (Inl e, \<lparr>attempts = 4, delays = [1000, 1000, 1000]\<rparr>)"
      by (simp add: publishToOracle_def retry_always_fails)
  qed
  have c5: "\<bar>t * 1000\<bar> \<le> 8640000000000000
        \<and> client 0 call
            = Inr \<lparr>getTransactionResponse = Some \<lparr>status = ''SUCCESS'', response_txHash = Some h\<rparr>,
                   sendTransactionResponse = sr\<rparr>
        \<and> h \<noteq> [] \<longrightarrow>
        publishToOracle (Inr client) params
          = (Inr \<lparr>txHash = h, success = True\<rparr>, \<lparr>attempts = 1, delays = []\<rparr>)"
  proof
    assume h: "\<bar>t * 1000\<bar> \<le> 8640000000000000
        \<and> client 0 call
            = Inr \<lparr>getTransactionResponse = Some \<lparr>status = ''SUCCESS'', response_txHash = Some h\<rparr>,
                   sendTransactionResponse = sr\<rparr>
        \<and> h \<noteq> []"
    then have "attempt (client 0) params = Inr \<lparr>txHash = h, success = True\<rparr>"
      unfolding assms by (simp add: attempt_succeeds)
    then have "retry (\<lambda>k. attempt (client k) params) maxRetries \<lparr>attempts = 0, delays = []\<rparr>
                 = (Inr \<lparr>txHash = h, success = True\<rparr>, \<lparr>attempts = 1, delays = []\<rparr>)"
      by (rule retry_first_succeeds)
    then show "publishToOracle (Inr client) params
          = (Inr \<lparr>txHash = h, success = True\<rparr>, \<lparr>attempts = 1, delays = []\<rparr>)"
      by (simp add: publishToOracle_def)
  qed
  have c6: "\<not> \<bar>t * 1000\<bar> \<le> 8640000000000000 \<longrightarrow>
        publishToOracle (Inr client) params
          = (Inl RangeError, \<lparr>attempts = 4, delays = [1000, 1000, 1000]\<rparr>)"
  proof
    assume h: "\<not> \<bar>t * 1000\<bar> \<le> 8640000000000000"
    have "(\<lambda>k. attempt (client k) params) = (\<lambda>k. Inl RangeError)"
    proof
      fix k
      from h show "attempt (client k) params = Inl RangeError"
        unfolding assms by (rule attempt_date_out_of_range)
    qed
    then show "publishToOracle (Inr client) params
          = (Inl RangeError, \<lparr>attempts = 4, delays = [1000, 1000, 1000]\<rparr>)"
      by (simp add: publishToOracle_def retry_always_fails)
  qed
  have c7: "send call = send' call \<longrightarrow>
        publishToOracle_polling send getTransaction params1
          = publishToOracle_polling send' getTransaction params1"
    by (simp add: publishToOracle_polling_def c2)
  have c8: "send call = Inl e \<longrightarrow>
        publishToOracle_polling send getTransaction params1
          = Some (Inl e, \<lparr>polls = 0, sleeps = []\<rparr>)"
    by (simp add: publishToOracle_polling_def c2)
  have c9: "send call = Inr \<lparr>getTransactionResponse = g,
                         sendTransactionResponse = Some \<lparr>hash = Some h\<rparr>\<rparr>
        \<and> h \<noteq> [] \<and> getTransaction h 0 = Inr SUCCESS \<longrightarrow>
        publishToOracle_polling send getTransaction params1
          = Some (Inr \<lparr>txHash = h, success = True\<rparr>, \<lparr>polls = 1, sleeps = []\<rparr>)"
    by (simp add: publishToOracle_polling_def c2 poll_loop_terminal)
  have c10: "publishToOracle getClient (params\<lparr>commit := c'\<rparr>) = publishToOracle getClient params"
    by (simp add: publishToOracle_def attempt_commit cong: sum.case_cong)
  have c11: "publishToOracle_polling send getTransaction (params1\<lparr>commit := c'\<rparr>)
      = publishToOracle_polling send getTransaction params1"
    by (simp add: publishToOracle_polling_def invocation_polling_commit cong: sum.case_cong)
  from c1 c2 c3 c4 c5 c6 c7 c8 c9 c10 c11 show ?thesis by (intro conjI)
qed

text \<open>Witness for C2: a client and a sender that answer with success to the invocation
  \<open>set_asset_price(Other("TSLA"), 3005000000, 1700000000)\<close> and throw on every other one.
  Both publishers return the hash of that answer.\<close>

theorem publish_payload_witness:
  "publishToOracle
     (Inr (\<lambda>k x. if x = set_asset_price (Other ''TSLA'') 3005000000 1700000000
                  then Inr \<lparr>getTransactionResponse =
                              Some \<lparr>status = ''SUCCESS'', response_txHash = Some ''ab''\<rparr>,
                            sendTransactionResponse = None\<rparr>
                  else Inl (Error ''other call'')))
     \<lparr>assetId = ''TSLA'', price = Integral 3005000000, timestamp = Integral 1700000000,
      commit = ''c0''\<rparr>
     = (Inr \<lparr>txHash = ''ab'', success = True\<rparr>, \<lparr>attempts = 1, delays = []\<rparr>)
   \<and> publishToOracle_polling
       (\<lambda>x. if x = set_asset_price (Other ''TSLA'') 3005000000 1700000000
             then Inr \<lparr>getTransactionResponse = None,
                       sendTransactionResponse = Some \<lparr>hash = Some ''ab''\<rparr>\<rparr>
             else Inl (Error ''other call''))
       (\<lambda>h k. Inr SUCCESS)
       \<lparr>assetId = ''TSLA'', price = 3005000000, timestamp = 1700000000, commit = ''c0''\<rparr>
     = Some (Inr \<lparr>txHash = ''ab'', success = True\<rparr>, \<lparr>polls = 1, sleeps = []\<rparr>)"
proof -
  let ?call = "set_asset_price (Other ''TSLA'') 3005000000 1700000000"
  let ?client = "\<lambda>(k::nat) x. if x = ?call
                  then Inr \<lparr>getTransactionResponse =
                              Some \<lparr>status = ''SUCCESS'', response_txHash = Some ''ab''\<rparr>,
                            sendTransactionResponse = None\<rparr>
                  else (Inl (Error ''other call'') :: js_exn + SentTransaction)"
  let ?send = "\<lambda>x. if x = ?call
             then Inr \<lparr>getTransactionResponse = None,
                       sendTransactionResponse = Some \<lparr>hash = Some ''ab''\<rparr>\<rparr>
             else (Inl (Error ''other call'') :: js_exn + SentTransaction)"
  let ?gt = "\<lambda>(h::string) (k::nat). (Inr SUCCESS :: js_exn + GetTransactionStatus)"
  let ?params = "\<lparr>assetId = ''TSLA'', price = Integral 3005000000,
                  timestamp = Integral 1700000000, commit = ''c0''\<rparr>"
  let ?params1 = "\<lparr>assetId = ''TSLA'', price = 3005000000 :: int, timestamp = 1700000000,
                   commit = ''c0''\<rparr>"
  note th = publish_payload [OF refl refl refl, where a = "''TSLA''" and p = 3005000000
      and t = 1700000000 and c = "''c0''" and client = ?client and h = "''ab''" and sr = None
      and send = ?send and g = None and getTransaction = ?gt]
  have d: "\<bar>(1700000000::int) * 1000\<bar> \<le> 8640000000000000" by simp
  have a: "?client 0 ?call
            = Inr \<lparr>getTransactionResponse = Some \<lparr>status = ''SUCCESS'', response_txHash = Some ''ab''\<rparr>,
                   sendTransactionResponse = None\<rparr>" by simp
  have b: "?send ?call = Inr \<lparr>getTransactionResponse = None,
                         sendTransactionResponse = Some \<lparr>hash = Some ''ab''\<rparr>\<rparr>" by simp
  have n: "''ab'' \<noteq> []" by simp
  have s: "?gt ''ab'' 0 = Inr SUCCESS" by simp
  from th d a n have r1: "publishToOracle (Inr ?client) ?params
     = (Inr \<lparr>txHash = ''ab'', success = True\<rparr>, \<lparr>attempts = 1, delays = []\<rparr>)"
    by blast
  from th b n s have r2: "publishToOracle_polling ?send ?gt ?params1
     = Some (Inr \<lparr>txHash = ''ab'', success = True\<rparr>, \<lparr>polls = 1, sleeps = []\<rparr>)"
    by blast
  from r1 r2 show ?thesis by (rule conjI)
qed

text \<open>
  C2, as stated, fails: two publish calls that differ in the commitment submit the same
  invocation, so the commitment is not part of the submitted payload.
\<close>

theorem publish_payload_without_commit:
  "commit \<lparr>assetId = ''TSLA'', price = Integral 3005000000, timestamp = Integral 1700000000,
           commit = ''1f''\<rparr>
     \<noteq> commit \<lparr>assetId = ''TSLA'', price = Integral 3005000000, timestamp = Integral 1700000000,
               commit = ''2e''\<rparr>
   \<and> invocation \<lparr>assetId = ''TSLA'', price = Integral 3005000000, timestamp = Integral 1700000000,
                 commit = ''1f''\<rparr>
     = Inr (set_asset_price (Other ''TSLA'') 3005000000 1700000000)
   \<and> invocation \<lparr>assetId = ''TSLA'', price = Integral 3005000000, timestamp = Integral 1700000000,
                 commit = ''2e''\<rparr>
     = Inr (set_asset_price (Other ''TSLA'') 3005000000 1700000000)"
  by (simp add: invocation_def BigInt_def toAsset_def)

section \<open>Properties of the consensus proof builder\<close>

text \<open>On integers, comparing with the rounded-down bound is the exact comparison of
  \<open>diff / maxPrice\<close> with the tolerance.\<close>

lemma tolerance_exact:
  "(d > m * t div 10000) = (d * 10000 > m * (t::int))"
  by linarith

text \<open>
  C7: for at least two observations (in particular for every pair) with
  \<open>maxPrice\<close> the greatest and \<open>minPrice\<close> the least scaled price, if
  \<open>maxPrice - minPrice > maxPrice * toleranceBps / 10000\<close> then \<open>build\<close> fails with
  ToleranceExceeded, whatever the oracles \<open>Prove\<close> and \<open>VerifyFull\<close> would answer, and
  the log of invocations of \<open>Prove\<close> is unchanged: \<open>Prove\<close> is not invoked.
\<close>

theorem build_tolerance_exceeded:
  assumes "2 \<le> length observations"
      and "Max (set (map scaledPrice observations)) - Min (set (map scaledPrice observations))
             > Max (set (map scaledPrice observations)) * toleranceBps div 10000"
  shows "build Prove VerifyFull observations toleranceBps prove_log
           = (Inl ToleranceExceeded, prove_log)"
  using assms by (simp add: build_def Let_def)

text \<open>Witness for C7: the prices 3000000000 and 3300000000 differ by more than 700
  basis points of the greater one (231000000). The builder fails and the log stays
  empty, although the oracles given here would deliver a proof and accept it.\<close>

theorem build_tolerance_exceeded_witness:
  "build (\<lambda>prices asset. Some ([1, 2, 3], [31500])) (\<lambda>pbytes pinputs. True)
     [\<lparr>obs_assetId = ''TSLA'', scaledPrice = 3000000000, observedAt = 1700000000, sourceId = ''a''\<rparr>,
      \<lparr>obs_assetId = ''TSLA'', scaledPrice = 3300000000, observedAt = 1700000000, sourceId = ''b''\<rparr>]
     700 []
   = (Inl ToleranceExceeded, [])"
proof -
  let ?obs = "[\<lparr>obs_assetId = ''TSLA'', scaledPrice = 3000000000, observedAt = 1700000000,
                 sourceId = ''a''\<rparr>,
               \<lparr>obs_assetId = ''TSLA'', scaledPrice = 3300000000, observedAt = 1700000000,
                 sourceId = ''b''\<rparr>]"
  have a: "2 \<le> length ?obs" by simp
  have b: "Max (set (map scaledPrice ?obs)) - Min (set (map scaledPrice ?obs))
             > Max (set (map scaledPrice ?obs)) * 700 div 10000"
    by simp
  show ?thesis by (rule build_tolerance_exceeded [OF a b])
qed

text \<open>Within the tolerance the same oracles are invoked once and the builder returns
  the declared output.\<close>

lemma build_within_tolerance_example:
  "build (\<lambda>prices asset. Some ([1, 2, 3], [30050])) (\<lambda>pbytes pinputs. True)
     [\<lparr>obs_assetId = ''TSLA'', scaledPrice = 3000000000, observedAt = 1700000000, sourceId = ''a''\<rparr>,
      \<lparr>obs_assetId = ''TSLA'', scaledPrice = 3010000000, observedAt = 1700000000, sourceId = ''b''\<rparr>]
     700 []
   = (Inr \<lparr>cp_assetId = ''TSLA'', averagedPrice = 30050, proofBytes = [1, 2, 3],
           publicInputs = [30050]\<rparr>,
      [([3000000000, 3010000000], ''TSLA'')])"
  by (simp add: build_def Let_def)

end
